theory Spec2Isabelle
  imports Main "HOL-Library.Char_ord" "HOL-Library.List_Lexorder"
begin

section \<open>python-manilaclient: argument validation, list queries, actions, dispatch\<close>

text \<open>
  A shallow embedding of the parts of the client library that the specification makes
  claims about. Python strings are \<open>string\<close> (the ASCII fragment; comparison is by
  character code, as Python compares by code point). A raised exception is the \<open>Inl\<close>
  of a sum; the exception's message is not modelled, only its class.
\<close>

subsection \<open>Exceptions\<close>

datatype error =
    CommandError
  | ValueError
  | VersionNotFoundForAPIMethod

subsection \<open>Python string primitives\<close>

text \<open>\<^verbatim>\<open>s.split(sep)\<close> for a one-character separator: every occurrence splits.\<close>

fun split_on :: "char \<Rightarrow> string \<Rightarrow> string list" where
  "split_on sep [] = [[]]"
| "split_on sep (c # cs) =
     (if c = sep then [] # split_on sep cs
      else (case split_on sep cs of
              [] \<Rightarrow> [[c]]
            | w # ws \<Rightarrow> (c # w) # ws))"

text \<open>\<^verbatim>\<open>s.split(sep, 1)\<close>: at most one split, at the first occurrence.\<close>

definition split_once :: "char \<Rightarrow> string \<Rightarrow> string list" where
  "split_once sep s =
     (case dropWhile (\<lambda>c. c \<noteq> sep) s of
        [] \<Rightarrow> [s]
      | _ # post \<Rightarrow> [takeWhile (\<lambda>c. c \<noteq> sep) s, post])"

definition is_digit :: "char \<Rightarrow> bool" where
  "is_digit c = (48 \<le> (of_char c :: nat) \<and> (of_char c :: nat) \<le> 57)"

definition digit_val :: "char \<Rightarrow> nat" where
  "digit_val c = (of_char c :: nat) - 48"

text \<open>The ASCII characters for which \<^verbatim>\<open>str.isspace\<close> holds; \<^verbatim>\<open>int\<close> strips them.\<close>

definition is_space :: "char \<Rightarrow> bool" where
  "is_space c = ((of_char c :: nat) \<in> set [9, 10, 11, 12, 13, 28, 29, 30, 31, 32])"

definition strip :: "string \<Rightarrow> string" where
  "strip s = rev (dropWhile is_space (rev (dropWhile is_space s)))"

text \<open>
  The digits of a decimal literal as \<^verbatim>\<open>int\<close> (Python 3) reads them: a single underscore
  may stand between two digits. The caller excludes the empty string.
\<close>

fun parse_digits :: "nat \<Rightarrow> string \<Rightarrow> nat option" where
  "parse_digits acc [] = Some acc"
| "parse_digits acc [c] = (if is_digit c then Some (10 * acc + digit_val c) else None)"
| "parse_digits acc (c # d # cs) =
     (if \<not> is_digit c then None
      else if d = CHR ''_'' then
        (case cs of
           [] \<Rightarrow> None
         | e # _ \<Rightarrow> if is_digit e then parse_digits (10 * acc + digit_val c) cs else None)
      else parse_digits (10 * acc + digit_val c) (d # cs))"

text \<open>\<^verbatim>\<open>int(s)\<close> on a string: \<open>None\<close> is the \<^verbatim>\<open>ValueError\<close>.\<close>

definition py_int :: "string \<Rightarrow> int option" where
  "py_int s =
     (case strip s of
        [] \<Rightarrow> None
      | c # cs \<Rightarrow>
          if c = CHR ''-'' then
            (if cs = [] then None else map_option (\<lambda>n. - int n) (parse_digits 0 cs))
          else if c = CHR ''+'' then
            (if cs = [] then None else map_option int (parse_digits 0 cs))
          else map_option int (parse_digits 0 (c # cs)))"

subsection \<open>Dictionaries\<close>

text \<open>
  A \<^verbatim>\<open>dict\<close> is an association list with distinct keys, in insertion order:
  assigning to a present key keeps its place, assigning to a new key appends.
\<close>

fun dict_set :: "('k \<times> 'v) list \<Rightarrow> 'k \<Rightarrow> 'v \<Rightarrow> ('k \<times> 'v) list" where
  "dict_set [] k v = [(k, v)]"
| "dict_set ((k', v') # kvs) k v =
     (if k' = k then (k, v) # kvs else (k', v') # dict_set kvs k v)"

definition dict_has :: "('k \<times> 'v) list \<Rightarrow> 'k \<Rightarrow> bool" where
  "dict_has d k = (k \<in> set (map fst d))"

definition dict_del :: "('k \<times> 'v) list \<Rightarrow> 'k \<Rightarrow> ('k \<times> 'v) list" where
  "dict_del d k = filter (\<lambda>kv. fst kv \<noteq> k) d"

subsection \<open>\<^verbatim>\<open>manilaclient/osc/utils.py\<close>: \<^verbatim>\<open>extract_properties\<close>\<close>

text \<open>
  The loop of \<^verbatim>\<open>extract_properties\<close>, with the dictionary built so far. Unpacking
  \<^verbatim>\<open>item.split('=', 1)\<close> into \<^verbatim>\<open>(key, value)\<close> raises \<^verbatim>\<open>ValueError\<close> unless the list
  has two elements, and the handler turns that into \<^verbatim>\<open>CommandError\<close>; a key already
  present raises \<^verbatim>\<open>CommandError\<close> directly.
\<close>

fun extract_properties_loop ::
  "(string \<times> string) list \<Rightarrow> string list \<Rightarrow> error + (string \<times> string) list" where
  "extract_properties_loop result_dict [] = Inr result_dict"
| "extract_properties_loop result_dict (item # items) =
     (case split_once CHR ''='' item of
        [key, val] \<Rightarrow>
          if dict_has result_dict key then Inl CommandError
          else extract_properties_loop (dict_set result_dict key val) items
      | _ \<Rightarrow> Inl CommandError)"

definition extract_properties :: "string list \<Rightarrow> error + (string \<times> string) list" where
  "extract_properties properties = extract_properties_loop [] properties"

subsection \<open>\<^verbatim>\<open>manilaclient/v2/shares.py\<close>: \<^verbatim>\<open>Share._validate_ip_range\<close>\<close>

text \<open>The final loop over the four dotted items: each must read as an integer in 0..255.\<close>

fun validate_octets :: "string list \<Rightarrow> error + unit" where
  "validate_octets [] = Inr ()"
| "validate_octets (item # items) =
     (case py_int item of
        None \<Rightarrow> Inl CommandError
      | Some n \<Rightarrow> if 0 \<le> n \<and> n \<le> 255 then validate_octets items else Inl CommandError)"

definition validate_prefix :: "string \<Rightarrow> error + unit" where
  "validate_prefix p =
     (case py_int p of
        None \<Rightarrow> Inl CommandError
      | Some prefix \<Rightarrow> if prefix < 0 \<or> prefix > 32 then Inl CommandError else Inr ())"

definition validate_ip_range :: "string \<Rightarrow> error + unit" where
  "validate_ip_range ip_range =
     (let parts = split_on CHR ''/'' ip_range in
      if length parts > 2 then Inl CommandError
      else
        (case (if length parts = 2 then validate_prefix (parts ! 1) else Inr ()) of
           Inl e \<Rightarrow> Inl e
         | Inr _ \<Rightarrow>
             (let octets = split_on CHR ''.'' (hd parts) in
              if length octets \<noteq> 4 then Inl CommandError
              else validate_octets octets)))"

subsection \<open>\<^verbatim>\<open>manilaclient/v2/shares.py\<close>: \<^verbatim>\<open>Share._validate_username\<close>\<close>

text \<open>
  The pattern is \<^verbatim>\<open>[\w\.\-_\`;\'\{\}\[\]\\\\]{4,32}$\<close> in a plain string literal, so the
  regular expression's character class holds the word characters (ASCII letters, digits
  and the underscore: non-ASCII word characters are outside this model) and the
  characters \<^verbatim>\<open>. - _ ` ; ' { } [ ] \\<close>.
\<close>

definition is_word_char :: "char \<Rightarrow> bool" where
  "is_word_char c =
     (let n = (of_char c :: nat) in
      (48 \<le> n \<and> n \<le> 57) \<or> (65 \<le> n \<and> n \<le> 90) \<or> (97 \<le> n \<and> n \<le> 122) \<or> n = 95)"

definition username_char :: "char \<Rightarrow> bool" where
  "username_char c =
     (is_word_char c \<or>
      c \<in> set [CHR ''.'', CHR ''-'', CHR ''_'', CHR 0x60, CHR '';'', CHR 0x27,
                CHR ''{'', CHR ''}'', CHR ''['', CHR '']'', CHR 0x5C])"

text \<open>
  \<^verbatim>\<open>$\<close> without \<^verbatim>\<open>re.MULTILINE\<close> matches at the end of the string and also just before
  a newline that is the string's last character.
\<close>

definition at_dollar :: "string \<Rightarrow> bool" where
  "at_dollar rest = (rest = [] \<or> rest = [CHR 0x0A])"

text \<open>
  \<^verbatim>\<open>re.match(valid_username_re, username)\<close>: anchored at the start, the class is repeated
  \<open>n\<close> times for some \<open>n\<close> from 32 down to 4 that the run of class characters allows,
  and \<^verbatim>\<open>$\<close> must hold after those \<open>n\<close> characters.
\<close>

definition match_username :: "string \<Rightarrow> bool" where
  "match_username s =
     (let run = length (takeWhile username_char s) in
      list_ex (\<lambda>n. at_dollar (drop n s)) (rev [4 ..< Suc (min 32 run)]))"

definition validate_username :: "string \<Rightarrow> error + unit" where
  "validate_username access = (if \<not> match_username access then Inl CommandError else Inr ())"

subsection \<open>Values of filters, and \<^verbatim>\<open>urlencode\<close>\<close>

text \<open>
  The values a filter dictionary holds in this model: \<^verbatim>\<open>None\<close>, booleans, integers and
  strings (the dictionary-valued filters \<^verbatim>\<open>metadata\<close> and \<^verbatim>\<open>extra_specs\<close> are outside it).
\<close>

datatype pyval = PyNone | PyBool bool | PyInt int | PyStr string

type_synonym filters = "(string \<times> pyval) list"

text \<open>Python's truth value: \<^verbatim>\<open>None\<close>, \<^verbatim>\<open>False\<close>, \<^verbatim>\<open>0\<close> and the empty string are falsy.\<close>

fun truthy :: "pyval \<Rightarrow> bool" where
  "truthy PyNone = False"
| "truthy (PyBool b) = b"
| "truthy (PyInt n) = (n \<noteq> 0)"
| "truthy (PyStr s) = (s \<noteq> [])"

fun nat_to_dec :: "nat \<Rightarrow> string" where
  "nat_to_dec n =
     (if n < 10 then [char_of (48 + n)]
      else nat_to_dec (n div 10) @ [char_of (48 + n mod 10)])"

text \<open>\<^verbatim>\<open>str(v)\<close>, which \<^verbatim>\<open>urlencode\<close> applies to a value that is not a string.\<close>

fun py_str :: "pyval \<Rightarrow> string" where
  "py_str PyNone = ''None''"
| "py_str (PyBool b) = (if b then ''True'' else ''False'')"
| "py_str (PyInt n) = (if n < 0 then CHR ''-'' # nat_to_dec (nat (- n)) else nat_to_dec (nat n))"
| "py_str (PyStr s) = s"

definition hex_digit :: "nat \<Rightarrow> char" where
  "hex_digit n = (if n < 10 then char_of (48 + n) else char_of (55 + n))"

text \<open>
  \<^verbatim>\<open>quote_plus\<close>: letters, digits and \<^verbatim>\<open>_ . - ~\<close> stand for themselves, a space becomes
  \<^verbatim>\<open>+\<close>, every other byte becomes \<^verbatim>\<open>%XX\<close>.
\<close>

definition quote_char :: "char \<Rightarrow> string" where
  "quote_char c =
     (if c = CHR '' '' then ''+''
      else if is_word_char c \<or> c \<in> set [CHR ''.'', CHR ''-'', CHR ''~''] then [c]
      else [CHR ''%'', hex_digit ((of_char c :: nat) div 16), hex_digit ((of_char c :: nat) mod 16)])"

definition quote_plus :: "string \<Rightarrow> string" where
  "quote_plus s = concat (map quote_char s)"

fun join :: "string \<Rightarrow> string list \<Rightarrow> string" where
  "join sep [] = []"
| "join sep [x] = x"
| "join sep (x # y # zs) = x @ sep @ join sep (y # zs)"

text \<open>\<^verbatim>\<open>urlencode\<close> of a sequence of pairs.\<close>

definition urlencode :: "filters \<Rightarrow> string" where
  "urlencode query =
     join ''&'' (map (\<lambda>kv. quote_plus (fst kv) @ ''='' @ quote_plus (py_str (snd kv))) query)"

text \<open>
  \<^verbatim>\<open>sorted([(k, v) for (k, v) in list(search_opts.items()) if v])\<close>. The keys of a
  dictionary are distinct, so sorting the pairs is sorting by key.
\<close>

definition sorted_truthy_items :: "filters \<Rightarrow> filters" where
  "sorted_truthy_items search_opts = sort_key fst (filter (\<lambda>kv. truthy (snd kv)) search_opts)"

subsection \<open>The transport and the managers' base class\<close>

datatype json = JNull | JBool bool | JInt int | JStr string | JObj "(string \<times> json) list"

datatype http_request = GET string | POST string json | DELETE string

text \<open>
  What the outside observes, in order: a hook called (its name and the body it was given)
  and a request sent through the transport.
\<close>

datatype event = HookRun string json | Http http_request

text \<open>
  A returned value: \<^verbatim>\<open>None\<close>, the transport's answer to a request as it came, or the
  resource object(s) built from that answer's entry under a key.
\<close>

datatype retval = RetNone | RetRaw http_request | RetParsed string http_request

text \<open>
  The state shared by everything that goes through one client: the transport's
  \<^verbatim>\<open>default_headers\<close> and the log of events. The transport is taken to answer every
  request; its own failures are outside this model.
\<close>

record world =
  default_headers :: "(string \<times> string) list"
  events :: "event list"

type_synonym 'r result = "(error + 'r) \<times> world"

datatype api_version = APIVersion nat nat

type_synonym hook = "string \<times> (json \<Rightarrow> json)"

record manager =
  api_version :: api_version
  hooks_map :: "(string \<times> hook list) list"

text \<open>The target of an operation: a resource object with its id, or the id itself.\<close>

datatype target = ResourceObj string | RawId string

text \<open>
  Modelled from the spec: \<^verbatim>\<open>common_base.getid\<close> is not under src; an operation's path is
  "derived from the target's id", and every docstring takes "either an object or text
  with its ID".
\<close>

fun getid :: "target \<Rightarrow> string" where
  "getid (ResourceObj i) = i"
| "getid (RawId i) = i"

text \<open>The truth value of an optional target argument (\<^verbatim>\<open>if share_group:\<close>).\<close>

fun target_truthy :: "target option \<Rightarrow> bool" where
  "target_truthy None = False"
| "target_truthy (Some (ResourceObj i)) = True"
| "target_truthy (Some (RawId i)) = (i \<noteq> [])"

definition send :: "http_request \<Rightarrow> world \<Rightarrow> world" where
  "send r w = w\<lparr>events := events w @ [Http r]\<rparr>"

text \<open>\<^verbatim>\<open>self.api.client.post(url, body=body)\<close>.\<close>

definition client_post :: "string \<Rightarrow> json \<Rightarrow> world \<Rightarrow> retval \<times> world" where
  "client_post url body w = (RetRaw (POST url body), send (POST url body) w)"

text \<open>
  Modelled from the spec: \<^verbatim>\<open>base.Manager\<close> is not under src. \<^verbatim>\<open>_list\<close> "issues a read;
  parses a JSON array under a known top-level key into a list of Resource", \<^verbatim>\<open>_get\<close>
  "issues a read, parses exactly one JSON object under a known top-level key".
\<close>

definition manager_list :: "string \<Rightarrow> string \<Rightarrow> world \<Rightarrow> retval \<times> world" where
  "manager_list url response_key w = (RetParsed response_key (GET url), send (GET url) w)"

definition manager_get :: "string \<Rightarrow> string \<Rightarrow> world \<Rightarrow> retval \<times> world" where
  "manager_get url response_key w = (RetParsed response_key (GET url), send (GET url) w)"

text \<open>
  Modelled from the spec: \<^verbatim>\<open>run_hooks\<close> is not under src. "Any hook callbacks registered
  for 'modify request body before action' are invoked, in registration order, before the
  POST is issued, letting collaborators rewrite the outgoing body".
\<close>

fun run_hook_list :: "hook list \<Rightarrow> json \<Rightarrow> world \<Rightarrow> json \<times> world" where
  "run_hook_list [] body w = (body, w)"
| "run_hook_list (h # hs) body w =
     run_hook_list hs (snd h body) (w\<lparr>events := events w @ [HookRun (fst h) body]\<rparr>)"

definition run_hooks :: "manager \<Rightarrow> string \<Rightarrow> json \<Rightarrow> world \<Rightarrow> json \<times> world" where
  "run_hooks self hook_type body w =
     run_hook_list (case map_of (hooks_map self) hook_type of None \<Rightarrow> [] | Some hs \<Rightarrow> hs) body w"

text \<open>
  Modelled from the spec: \<^verbatim>\<open>_build_query_string\<close> is not under src. "Filter keys/values
  are URL-encoded key=value pairs, falsy values dropped, remaining pairs sorted
  lexicographically by key before encoding"; the question mark is the one
  \<^verbatim>\<open>ShareManager.list\<close> puts before a query that is not empty.
\<close>

definition build_query_string :: "filters \<Rightarrow> string" where
  "build_query_string search_opts =
     (let params = sorted_truthy_items search_opts in
      if params \<noteq> [] then ''?'' @ urlencode params else [])"

text \<open>
  The tuples of \<^verbatim>\<open>manilaclient/common/constants.py\<close>, which is not under src: the
  operations take them as a parameter.
\<close>

record constants =
  SHARE_SORT_KEY_VALUES :: "string list"
  SHARE_GROUP_REPLICA_SORT_KEY_VALUES :: "string list"
  SHARE_GROUP_INSTANCE_SORT_KEY_VALUES :: "string list"
  SHARE_GROUP_SNAPSHOT_INSTANCE_SORT_KEY_VALUES :: "string list"
  SORT_DIR_VALUES :: "string list"
  EXPERIMENTAL_HTTP_HEADER :: string

text \<open>
  Modelled from the spec: the header is \<^verbatim>\<open>X-Openstack-Manila-Api-Experimental\<close> and the
  directions are \<^verbatim>\<open>asc\<close> and \<^verbatim>\<open>desc\<close>; the sort keys here are the two the docstrings
  name and the three aliases \<^verbatim>\<open>ShareManager.list\<close> replaces.
\<close>

definition example_constants :: constants where
  "example_constants =
     \<lparr>SHARE_SORT_KEY_VALUES =
        [''created_at'', ''status'', ''share_type'', ''snapshot'', ''share_network''],
      SHARE_GROUP_REPLICA_SORT_KEY_VALUES = [''created_at'', ''status''],
      SHARE_GROUP_INSTANCE_SORT_KEY_VALUES = [''created_at'', ''status''],
      SHARE_GROUP_SNAPSHOT_INSTANCE_SORT_KEY_VALUES = [''created_at'', ''status''],
      SORT_DIR_VALUES = [''asc'', ''desc''],
      EXPERIMENTAL_HTTP_HEADER = ''X-Openstack-Manila-Api-Experimental''\<rparr>"

text \<open>
  The check every \<^verbatim>\<open>list\<close> makes on \<^verbatim>\<open>sort_key\<close> and \<^verbatim>\<open>sort_dir\<close>: an argument that is
  not \<^verbatim>\<open>None\<close> is stored under \<open>name\<close> when the tuple holds it, and raises
  \<^verbatim>\<open>ValueError\<close> otherwise.
\<close>

definition checked_opt ::
  "string list \<Rightarrow> string \<Rightarrow> string option \<Rightarrow> filters \<Rightarrow> error + filters" where
  "checked_opt allowed name arg search_opts =
     (case arg of
        None \<Rightarrow> Inr search_opts
      | Some a \<Rightarrow>
          if a \<in> set allowed then Inr (dict_set search_opts name (PyStr a))
          else Inl ValueError)"

text \<open>A call that returns what the transport or the base class gave.\<close>

definition returned :: "retval \<times> world \<Rightarrow> retval result" where
  "returned p = (Inr (fst p), snd p)"

text \<open>A call whose value is dropped: the function goes on and returns \<^verbatim>\<open>None\<close>.\<close>

definition dropped :: "retval \<times> world \<Rightarrow> retval result" where
  "dropped p = (Inr RetNone, snd p)"

text \<open>\<^verbatim>\<open>info=None\<close>: an absent \<^verbatim>\<open>info\<close> is \<^verbatim>\<open>None\<close>, which the body carries as null.\<close>

definition info_or_null :: "json option \<Rightarrow> json" where
  "info_or_null info = (case info of None \<Rightarrow> JNull | Some i \<Rightarrow> i)"

subsection \<open>\<^verbatim>\<open>manilaclient/v2/shares.py\<close>: \<^verbatim>\<open>ShareManager\<close>\<close>

definition ShareManager_action ::
  "manager \<Rightarrow> string \<Rightarrow> target \<Rightarrow> json option \<Rightarrow> world \<Rightarrow> retval result" where
  "ShareManager_action self action share info w =
     (let body = JObj [(action, info_or_null info)];
          hooked = run_hooks self ''modify_body_for_action'' body w;
          url = ''/shares/'' @ getid share @ ''/action''
      in returned (client_post url (fst hooked) (snd hooked)))"

definition do_force_delete :: "manager \<Rightarrow> target \<Rightarrow> string \<Rightarrow> world \<Rightarrow> retval result" where
  "do_force_delete self share action_name w = ShareManager_action self action_name share None w"

text \<open>The two functions named \<^verbatim>\<open>force_delete\<close>, by the version each is declared from.\<close>

definition force_delete_1_0 :: "manager \<Rightarrow> target \<Rightarrow> world \<Rightarrow> retval result" where
  "force_delete_1_0 self share w = do_force_delete self share ''os-force_delete'' w"

definition force_delete_2_7 :: "manager \<Rightarrow> target \<Rightarrow> world \<Rightarrow> retval result" where
  "force_delete_2_7 self share w = do_force_delete self share ''force_delete'' w"

definition do_migrate_share ::
  "manager \<Rightarrow> target \<Rightarrow> string \<Rightarrow> bool \<Rightarrow> string \<Rightarrow> world \<Rightarrow> retval result" where
  "do_migrate_share self share host force_host_copy action_name w =
     ShareManager_action self action_name share
       (Some (JObj [(''host'', JStr host), (''force_host_copy'', JBool force_host_copy)])) w"

definition migrate_share_2_5 ::
  "manager \<Rightarrow> target \<times> string \<times> bool \<Rightarrow> world \<Rightarrow> retval result" where
  "migrate_share_2_5 self args w =
     do_migrate_share self (fst args) (fst (snd args)) (snd (snd args)) ''os-migrate_share'' w"

definition migrate_share_2_7 ::
  "manager \<Rightarrow> target \<times> string \<times> bool \<Rightarrow> world \<Rightarrow> retval result" where
  "migrate_share_2_7 self args w =
     do_migrate_share self (fst args) (fst (snd args)) (snd (snd args)) ''migrate_share'' w"

text \<open>
  \<^verbatim>\<open>ShareManager.list\<close>. An allowed \<^verbatim>\<open>sort_key\<close> is stored with its alias replaced;
  \<^verbatim>\<open>is_public\<close> is set to \<^verbatim>\<open>True\<close> when the caller's filters do not have the key.
\<close>

definition share_sort_key :: "string \<Rightarrow> string" where
  "share_sort_key k =
     (if k = ''share_type'' then ''share_type_id''
      else if k = ''snapshot'' then ''snapshot_id''
      else if k = ''share_network'' then ''share_network_id''
      else k)"

text \<open>The filters as they stand when the query string is built, or the exception.\<close>

definition ShareManager_list_opts ::
  "constants \<Rightarrow> filters option \<Rightarrow> string option \<Rightarrow> string option \<Rightarrow> error + filters" where
  "ShareManager_list_opts c search_opts sort_key' sort_dir =
     (let opts0 = (case search_opts of None \<Rightarrow> [] | Some d \<Rightarrow> d) in
      case (case sort_key' of
              None \<Rightarrow> Inr opts0
            | Some k \<Rightarrow>
                if k \<in> set (SHARE_SORT_KEY_VALUES c)
                then Inr (dict_set opts0 ''sort_key'' (PyStr (share_sort_key k)))
                else Inl ValueError) of
        Inl e \<Rightarrow> Inl e
      | Inr opts1 \<Rightarrow>
          (case checked_opt (SORT_DIR_VALUES c) ''sort_dir'' sort_dir opts1 of
             Inl e \<Rightarrow> Inl e
           | Inr opts2 \<Rightarrow>
               Inr (if \<not> dict_has opts2 ''is_public''
                    then dict_set opts2 ''is_public'' (PyBool True) else opts2)))"

definition ShareManager_list ::
  "constants \<Rightarrow> manager \<Rightarrow> bool \<Rightarrow> filters option \<Rightarrow> string option \<Rightarrow> string option \<Rightarrow>
   world \<Rightarrow> retval result" where
  "ShareManager_list c self detailed search_opts sort_key' sort_dir w =
     (case ShareManager_list_opts c search_opts sort_key' sort_dir of
        Inl e \<Rightarrow> (Inl e, w)
      | Inr opts \<Rightarrow>
          (let query_string =
                 (if opts \<noteq> [] then
                    (let q = urlencode (sorted_truthy_items opts) in
                     if q \<noteq> [] then ''?'' @ q else q)
                  else []);
               path = (if detailed then ''/shares/detail'' @ query_string
                       else ''/shares'' @ query_string)
           in returned (manager_list path ''shares'' w)))"

subsection \<open>The share-group managers\<close>

text \<open>
  \<^verbatim>\<open>search_opts = search_opts or {}\<close>, then the filter on the group when the argument is
  truthy, under the key each manager writes.
\<close>

definition opts_or_empty :: "filters option \<Rightarrow> filters" where
  "opts_or_empty search_opts = (case search_opts of None \<Rightarrow> [] | Some d \<Rightarrow> d)"

definition with_group :: "string \<Rightarrow> target option \<Rightarrow> filters \<Rightarrow> filters" where
  "with_group key share_group search_opts =
     (case share_group of
        None \<Rightarrow> search_opts
      | Some g \<Rightarrow> if target_truthy (Some g) then dict_set search_opts key (PyStr (getid g))
                  else search_opts)"

text \<open>The common end of the three \<^verbatim>\<open>list\<close> functions: the query, the URL and the read.\<close>

definition list_request :: "string \<Rightarrow> string \<Rightarrow> bool \<Rightarrow> filters \<Rightarrow> world \<Rightarrow> retval result" where
  "list_request resources_path resources_name detailed search_opts w =
     (let query_string = build_query_string search_opts;
          url = (if detailed then resources_path @ ''/detail'' @ query_string
                 else resources_path @ query_string)
      in returned (manager_list url resources_name w))"

text \<open>
  Each \<^verbatim>\<open>list\<close> in two steps: the filters as they stand when the query string is built
  (or the exception), then the request.
\<close>

definition ShareGroupReplicaManager_list_opts ::
  "constants \<Rightarrow> target option \<Rightarrow> filters option \<Rightarrow> string option \<Rightarrow> string option \<Rightarrow>
   error + filters" where
  "ShareGroupReplicaManager_list_opts c share_group search_opts sort_key' sort_dir =
     (let opts1 = with_group ''share_id'' share_group (opts_or_empty search_opts) in
      case checked_opt (SHARE_GROUP_REPLICA_SORT_KEY_VALUES c) ''sort_key'' sort_key' opts1 of
        Inl e \<Rightarrow> Inl e
      | Inr opts2 \<Rightarrow> checked_opt (SORT_DIR_VALUES c) ''sort_dir'' sort_dir opts2)"

definition ShareGroupReplicaManager_list ::
  "constants \<Rightarrow> manager \<Rightarrow> target option \<Rightarrow> bool \<Rightarrow> filters option \<Rightarrow> string option \<Rightarrow>
   string option \<Rightarrow> world \<Rightarrow> retval result" where
  "ShareGroupReplicaManager_list c self share_group detailed search_opts sort_key' sort_dir w =
     (case ShareGroupReplicaManager_list_opts c share_group search_opts sort_key' sort_dir of
        Inl e \<Rightarrow> (Inl e, w)
      | Inr opts \<Rightarrow>
          list_request ''/share-group-replicas'' ''share_group_replicas'' detailed opts w)"

definition ShareGroupInstanceManager_list_opts ::
  "constants \<Rightarrow> target option \<Rightarrow> filters option \<Rightarrow> string option \<Rightarrow> string option \<Rightarrow>
   error + filters" where
  "ShareGroupInstanceManager_list_opts c share_group search_opts sort_key' sort_dir =
     (let opts1 = with_group ''share_group_id'' share_group (opts_or_empty search_opts) in
      case checked_opt (SHARE_GROUP_INSTANCE_SORT_KEY_VALUES c) ''sort_key'' sort_key' opts1 of
        Inl e \<Rightarrow> Inl e
      | Inr opts2 \<Rightarrow> checked_opt (SORT_DIR_VALUES c) ''sort_dir'' sort_dir opts2)"

definition ShareGroupInstanceManager_list ::
  "constants \<Rightarrow> manager \<Rightarrow> target option \<Rightarrow> bool \<Rightarrow> filters option \<Rightarrow> string option \<Rightarrow>
   string option \<Rightarrow> world \<Rightarrow> retval result" where
  "ShareGroupInstanceManager_list c self share_group detailed search_opts sort_key' sort_dir w =
     (case ShareGroupInstanceManager_list_opts c share_group search_opts sort_key' sort_dir of
        Inl e \<Rightarrow> (Inl e, w)
      | Inr opts \<Rightarrow>
          list_request ''/share-group-instances'' ''share_group_instances'' detailed opts w)"

text \<open>
  \<^verbatim>\<open>ShareGroupSnapshotInstanceManager.list\<close> also moves a \<^verbatim>\<open>share_group_instance\<close>
  filter to \<^verbatim>\<open>share_group_instance_id\<close>; a value of this model has no id of its own, so
  \<^verbatim>\<open>getid\<close> gives the value back.
\<close>

definition ShareGroupSnapshotInstanceManager_list_opts ::
  "constants \<Rightarrow> target option \<Rightarrow> filters option \<Rightarrow> string option \<Rightarrow> string option \<Rightarrow>
   error + filters" where
  "ShareGroupSnapshotInstanceManager_list_opts c share_group_snapshot search_opts sort_key'
       sort_dir =
     (let opts1 = with_group ''share_group_snapshot_id'' share_group_snapshot
                    (opts_or_empty search_opts) in
      case checked_opt (SHARE_GROUP_SNAPSHOT_INSTANCE_SORT_KEY_VALUES c) ''sort_key'' sort_key'
             opts1 of
        Inl e \<Rightarrow> Inl e
      | Inr opts2 \<Rightarrow>
          (case checked_opt (SORT_DIR_VALUES c) ''sort_dir'' sort_dir opts2 of
             Inl e \<Rightarrow> Inl e
           | Inr opts3 \<Rightarrow>
               Inr (case map_of opts3 ''share_group_instance'' of
                      None \<Rightarrow> opts3
                    | Some v \<Rightarrow>
                        dict_set (dict_del opts3 ''share_group_instance'')
                          ''share_group_instance_id'' v)))"

definition ShareGroupSnapshotInstanceManager_list ::
  "constants \<Rightarrow> manager \<Rightarrow> target option \<Rightarrow> bool \<Rightarrow> filters option \<Rightarrow> string option \<Rightarrow>
   string option \<Rightarrow> world \<Rightarrow> retval result" where
  "ShareGroupSnapshotInstanceManager_list c self share_group_snapshot detailed search_opts
       sort_key' sort_dir w =
     (case ShareGroupSnapshotInstanceManager_list_opts c share_group_snapshot search_opts
             sort_key' sort_dir of
        Inl e \<Rightarrow> (Inl e, w)
      | Inr opts \<Rightarrow>
          list_request ''/share-group-snapshot-instances'' ''share_group_snapshot_instances''
            detailed opts w)"

text \<open>
  The three \<^verbatim>\<open>_action\<close> functions of the share-group managers: the URL from the id, the
  body, the POST. They return \<^verbatim>\<open>None\<close>.
\<close>

definition group_action ::
  "string \<Rightarrow> target \<Rightarrow> string \<Rightarrow> json option \<Rightarrow> world \<Rightarrow> retval result" where
  "group_action resource_path obj action info w =
     (let url = resource_path @ ''/'' @ getid obj @ ''/action'';
          body = JObj [(action, info_or_null info)]
      in dropped (client_post url body w))"

definition ShareGroupReplicaManager_action ::
  "manager \<Rightarrow> target \<Rightarrow> string \<Rightarrow> json option \<Rightarrow> world \<Rightarrow> retval result" where
  "ShareGroupReplicaManager_action self share_group_replica action info w =
     group_action ''/share-group-replicas'' share_group_replica action info w"

definition ShareGroupInstanceManager_action ::
  "manager \<Rightarrow> target \<Rightarrow> string \<Rightarrow> json option \<Rightarrow> world \<Rightarrow> retval result" where
  "ShareGroupInstanceManager_action self share_group_instance action info w =
     group_action ''/share-group-instances'' share_group_instance action info w"

definition ShareGroupSnapshotInstanceManager_action ::
  "manager \<Rightarrow> target \<Rightarrow> string \<Rightarrow> json option \<Rightarrow> world \<Rightarrow> retval result" where
  "ShareGroupSnapshotInstanceManager_action self share_group_snapshot_instance action info w =
     group_action ''/share-group-snapshot-instances'' share_group_snapshot_instance action info w"

text \<open>\<^verbatim>\<open>ShareGroupReplicaManager.get\<close>, the function under the two decorators.\<close>

definition ShareGroupReplicaManager_get :: "manager \<Rightarrow> target \<Rightarrow> world \<Rightarrow> retval result" where
  "ShareGroupReplicaManager_get self share_group_replica w =
     (let url = ''/share-group-replicas/'' @ getid share_group_replica
      in returned (manager_get url ''share_group_replica'' w))"

subsection \<open>\<^verbatim>\<open>manilaclient/api_versions.py\<close>\<close>

text \<open>
  \<^verbatim>\<open>experimental_api\<close>. The class \<^verbatim>\<open>manilaclient.v1.client.Client\<close> is not under src, so
  the \<^verbatim>\<open>isinstance\<close> test on the first argument is the parameter \<open>is_v1_client\<close>. The
  inner \<^verbatim>\<open>_decorator\<close> calls \<^verbatim>\<open>f\<close> as a statement and has no \<^verbatim>\<open>return\<close>.
\<close>

definition experimental_api ::
  "constants \<Rightarrow> ('self \<Rightarrow> bool) \<Rightarrow> ('self \<Rightarrow> 'a \<Rightarrow> world \<Rightarrow> retval result) \<Rightarrow>
   'self \<Rightarrow> 'a \<Rightarrow> world \<Rightarrow> retval result" where
  "experimental_api c is_v1_client f client args w =
     (let w1 = (if is_v1_client client
                then w\<lparr>default_headers :=
                         dict_set (default_headers w) (EXPERIMENTAL_HTTP_HEADER c) ''true''\<rparr>
                else w)
      in case f client args w1 of
           (Inl e, w2) \<Rightarrow> (Inl e, w2)
         | (Inr r, w2) \<Rightarrow> (Inr RetNone, w2))"

text \<open>
  Modelled from the spec: \<^verbatim>\<open>APIVersion\<close> is not under src. A version is "a semantic
  version (major.minor) with total ordering".
\<close>

fun version_le :: "api_version \<Rightarrow> api_version \<Rightarrow> bool" where
  "version_le (APIVersion a b) (APIVersion c d) = (a < c \<or> (a = c \<and> b \<le> d))"

text \<open>
  Modelled from the spec: \<^verbatim>\<open>VersionedMethod\<close> is not under src. It is "name, start, end
  or unbounded, func, is_experimental"; the function is given the object the operation
  was called on, and the arguments.
\<close>

record 'a versioned_method =
  vm_name :: string
  start_version :: api_version
  end_version :: "api_version option"
  func :: "manager \<Rightarrow> 'a \<Rightarrow> world \<Rightarrow> retval result"
  is_experimental :: bool

text \<open>
  Modelled from the spec: the registry is a "mapping from operation name to an ordered
  sequence of VersionedMethod entries", and declaring an implementation "appends another
  VersionedMethod to that name's list".
\<close>

type_synonym 'a registry = "string \<Rightarrow> 'a versioned_method list"

definition add_versioned_method :: "'a versioned_method \<Rightarrow> 'a registry \<Rightarrow> 'a registry" where
  "add_versioned_method vm reg = reg(vm_name vm := reg (vm_name vm) @ [vm])"

definition empty_registry :: "'a registry" where
  "empty_registry = (\<lambda>name. [])"

text \<open>
  Modelled from the spec: a window contains a version when "start \<le> version \<le> end,
  with unbounded ends always satisfied".
\<close>

definition in_window :: "'a versioned_method \<Rightarrow> api_version \<Rightarrow> bool" where
  "in_window vm v =
     (version_le (start_version vm) v \<and>
      (case end_version vm of None \<Rightarrow> True | Some e \<Rightarrow> version_le v e))"

text \<open>
  Modelled from the spec: the callable \<^verbatim>\<open>wraps\<close> puts in the operation's place is not
  under src. It is to "iterate the registered VersionedMethod list for that name in
  registration order; select the first whose window contains the caller's version",
  "invoke it with the original arguments, returning its result unchanged", and it "fails
  with VersionNotFoundForAPIMethod when no registered window contains the caller's
  version"; the caller's version is read from the first argument.
\<close>

definition dispatch ::
  "'a registry \<Rightarrow> string \<Rightarrow> manager \<Rightarrow> 'a \<Rightarrow> world \<Rightarrow> retval result" where
  "dispatch reg name obj args w =
     (case find (\<lambda>vm. in_window vm (api_version obj)) (reg name) of
        None \<Rightarrow> (Inl VersionNotFoundForAPIMethod, w)
      | Some vm \<Rightarrow> func vm obj args w)"

text \<open>
  The registry after \<^verbatim>\<open>shares.py\<close> has declared \<^verbatim>\<open>force_delete\<close> twice
  (\<^verbatim>\<open>wraps("1.0", "2.6")\<close>, then \<^verbatim>\<open>wraps("2.7")\<close>), and \<^verbatim>\<open>migrate_share\<close> twice
  (\<^verbatim>\<open>wraps("2.5", "2.6")\<close>, then \<^verbatim>\<open>wraps("2.7")\<close>).
\<close>

definition force_delete_registry :: "target registry" where
  "force_delete_registry =
     add_versioned_method
       \<lparr>vm_name = ''force_delete'', start_version = APIVersion 2 7, end_version = None,
        func = force_delete_2_7, is_experimental = False\<rparr>
       (add_versioned_method
          \<lparr>vm_name = ''force_delete'', start_version = APIVersion 1 0,
           end_version = Some (APIVersion 2 6), func = force_delete_1_0,
           is_experimental = False\<rparr>
          empty_registry)"

definition migrate_share_registry :: "(target \<times> string \<times> bool) registry" where
  "migrate_share_registry =
     add_versioned_method
       \<lparr>vm_name = ''migrate_share'', start_version = APIVersion 2 7, end_version = None,
        func = migrate_share_2_7, is_experimental = False\<rparr>
       (add_versioned_method
          \<lparr>vm_name = ''migrate_share'', start_version = APIVersion 2 5,
           end_version = Some (APIVersion 2 6), func = migrate_share_2_5,
           is_experimental = False\<rparr>
          empty_registry)"

definition ShareManager_force_delete :: "manager \<Rightarrow> target \<Rightarrow> world \<Rightarrow> retval result" where
  "ShareManager_force_delete = dispatch force_delete_registry ''force_delete''"

definition ShareManager_migrate_share ::
  "manager \<Rightarrow> target \<times> string \<times> bool \<Rightarrow> world \<Rightarrow> retval result" where
  "ShareManager_migrate_share = dispatch migrate_share_registry ''migrate_share''"

subsection \<open>Notions the properties are stated with\<close>

text \<open>The text of an item before its first \<^verbatim>\<open>=\<close>, and the text after it.\<close>

definition key_of :: "string \<Rightarrow> string" where
  "key_of item = takeWhile (\<lambda>c. c \<noteq> CHR ''='') item"

definition value_of :: "string \<Rightarrow> string" where
  "value_of item = tl (dropWhile (\<lambda>c. c \<noteq> CHR ''='') item)"

text \<open>The experimental header stands at \<^verbatim>\<open>true\<close> in the transport's default headers.\<close>

definition header_is_true :: "constants \<Rightarrow> world \<Rightarrow> bool" where
  "header_is_true c w = (map_of (default_headers w) (EXPERIMENTAL_HTTP_HEADER c) = Some ''true'')"

text \<open>The world once \<^verbatim>\<open>dh[constants.EXPERIMENTAL_HTTP_HEADER] = 'true'\<close> has run.\<close>

definition flagged :: "constants \<Rightarrow> world \<Rightarrow> world" where
  "flagged c w =
     w\<lparr>default_headers := dict_set (default_headers w) (EXPERIMENTAL_HTTP_HEADER c) ''true''\<rparr>"

text \<open>
  What an \<^verbatim>\<open>_action\<close> does when it runs the hooks: the \<open>i\<close>-th hook registered under
  \<^verbatim>\<open>modify_body_for_action\<close> is given the body the hooks before it have left, and one POST
  follows, to the action path of the target's id.
\<close>

definition claimed_action_events ::
  "manager \<Rightarrow> string \<Rightarrow> target \<Rightarrow> string \<Rightarrow> json option \<Rightarrow> event list" where
  "claimed_action_events self resource_path obj action info =
     (let body = JObj [(action, info_or_null info)];
          hs = (case map_of (hooks_map self) ''modify_body_for_action'' of
                  None \<Rightarrow> []
                | Some hs \<Rightarrow> hs)
      in map (\<lambda>i. HookRun (fst (hs ! i)) (fold (\<lambda>h b. snd h b) (take i hs) body))
           [0 ..< length hs]
         @ [Http (POST (resource_path @ ''/'' @ getid obj @ ''/action'')
                   (fold (\<lambda>h b. snd h b) hs body))])"

section \<open>Properties\<close>

subsection \<open>Auxiliary facts\<close>

lemma split_once_has:
  "sep \<in> set s \<Longrightarrow> split_once sep s = [takeWhile (\<lambda>c. c \<noteq> sep) s, tl (dropWhile (\<lambda>c. c \<noteq> sep) s)]"
  by (cases "dropWhile (\<lambda>c. c \<noteq> sep) s") (auto simp: split_once_def dropWhile_eq_Nil_conv)

lemma split_once_hasnt: "sep \<notin> set s \<Longrightarrow> split_once sep s = [s]"
proof -
  assume "sep \<notin> set s"
  then have d: "dropWhile (\<lambda>c. c \<noteq> sep) s = []"
    by (auto simp: dropWhile_eq_Nil_conv)
  show ?thesis unfolding split_once_def d by simp
qed

lemma dict_set_fresh: "k \<notin> fst ` set d \<Longrightarrow> dict_set d k v = d @ [(k, v)]"
  by (induction d) auto

lemma extract_properties_loop_char:
  "extract_properties_loop d ps =
     (if (\<forall>item \<in> set ps. CHR ''='' \<in> set item) \<and> distinct (map key_of ps)
         \<and> set (map key_of ps) \<inter> fst ` set d = {}
      then Inr (d @ map (\<lambda>item. (key_of item, value_of item)) ps)
      else Inl CommandError)"
proof (induction ps arbitrary: d)
  case Nil
  then show ?case by simp
next
  case (Cons item items)
  show ?case
  proof (cases "CHR ''='' \<in> set item")
    case False
    then show ?thesis by (simp add: split_once_hasnt)
  next
    case True
    note sp = split_once_has [OF True]
    show ?thesis
    proof (cases "key_of item \<in> fst ` set d")
      case True
      then show ?thesis using sp by (auto simp: dict_has_def key_of_def)
    next
      case False
      have "extract_properties_loop d (item # items) =
            extract_properties_loop (d @ [(key_of item, value_of item)]) items"
        using sp False by (simp add: dict_has_def key_of_def value_of_def dict_set_fresh)
      then show ?thesis using False True
        by (auto simp: Cons.IH)
    qed
  qed
qed

lemma find_unique:
  "i < length xs \<Longrightarrow> P (xs ! i) \<Longrightarrow> \<forall>j < length xs. P (xs ! j) \<longrightarrow> j = i \<Longrightarrow> find P xs = Some (xs ! i)"
proof (induction xs arbitrary: i)
  case Nil
  then show ?case by simp
next
  case (Cons x xs)
  show ?case
  proof (cases i)
    case 0
    with Cons.prems show ?thesis by simp
  next
    case (Suc k)
    have "\<not> P x" using Cons.prems(3) Suc by (metis length_Cons nat.distinct(1) nth_Cons_0 zero_less_Suc)
    moreover have "find P xs = Some (xs ! k)"
    proof (rule Cons.IH)
      show "k < length xs" using Cons.prems(1) Suc by simp
      show "P (xs ! k)" using Cons.prems(2) Suc by simp
      show "\<forall>j<length xs. P (xs ! j) \<longrightarrow> j = k"
      proof (intro allI impI)
        fix j assume "j < length xs" "P (xs ! j)"
        then have "Suc j = i" using Cons.prems(3) by auto
        then show "j = k" using Suc by simp
      qed
    qed
    ultimately show ?thesis using Suc by simp
  qed
qed

lemma find_none: "\<forall>x \<in> set xs. \<not> P x \<Longrightarrow> find P xs = None"
  by (simp add: find_None_iff)

lemma force_delete_registry_entries:
  "force_delete_registry ''force_delete'' =
     [\<lparr>vm_name = ''force_delete'', start_version = APIVersion 1 0,
       end_version = Some (APIVersion 2 6), func = force_delete_1_0, is_experimental = False\<rparr>,
      \<lparr>vm_name = ''force_delete'', start_version = APIVersion 2 7, end_version = None,
        func = force_delete_2_7, is_experimental = False\<rparr>]"
  by (simp add: force_delete_registry_def add_versioned_method_def empty_registry_def)

lemma run_hooks_empty: "run_hooks \<lparr>api_version = v, hooks_map = []\<rparr> t body w = (body, w)"
  by (simp add: run_hooks_def)

lemma dict_set_lookup: "map_of (dict_set d k v) k = Some v"
  by (induction d) auto

lemma dict_set_other: "k' \<noteq> k \<Longrightarrow> map_of (dict_set d k v) k' = map_of d k'"
  by (induction d) auto

lemma experimental_api_world:
  "snd (experimental_api c p f client args w) =
   snd (f client args (if p client
          then w\<lparr>default_headers := dict_set (default_headers w) (EXPERIMENTAL_HTTP_HEADER c) ''true''\<rparr>
          else w))"
  by (simp add: experimental_api_def Let_def split: prod.splits sum.splits)

lemma experimental_api_value:
  "fst (experimental_api c p f client args w) =
   (case fst (f client args (if p client
          then w\<lparr>default_headers := dict_set (default_headers w) (EXPERIMENTAL_HTTP_HEADER c) ''true''\<rparr>
          else w)) of Inl e \<Rightarrow> Inl e | Inr r \<Rightarrow> Inr RetNone)"
  by (simp add: experimental_api_def Let_def split: prod.splits sum.splits)

lemma map_upt_Suc0: "map f [0 ..< Suc n] = f 0 # map (\<lambda>i. f (Suc i)) [0 ..< n]"
  by (simp only: upt_conv_Cons [of 0 "Suc n"] zero_less_Suc if_True list.map map_Suc_upt [symmetric] map_map o_def)

lemma run_hook_list_events:
  "run_hook_list hs body w =
     (fold (\<lambda>h b. snd h b) hs body,
      w\<lparr>events := events w @
           map (\<lambda>i. HookRun (fst (hs ! i)) (fold (\<lambda>h b. snd h b) (take i hs) body))
             [0 ..< length hs]\<rparr>)"
proof (induction hs arbitrary: body w)
  case Nil
  then show ?case by simp
next
  case (Cons h hs)
  show ?case
    by (simp add: Cons.IH map_upt_Suc0 del: upt_Suc)
qed

lemma ShareManager_action_events:
  "ShareManager_action self action share info w =
     (Inr (RetRaw (POST (''/shares/'' @ getid share @ ''/action'')
            (fold (\<lambda>h b. snd h b)
               (case map_of (hooks_map self) ''modify_body_for_action'' of
                  None \<Rightarrow> [] | Some hs \<Rightarrow> hs)
               (JObj [(action, info_or_null info)])))),
      w\<lparr>events := events w @ claimed_action_events self ''/shares'' share action info\<rparr>)"
  by (simp add: ShareManager_action_def run_hooks_def run_hook_list_events client_post_def
      send_def returned_def claimed_action_events_def Let_def)

lemma group_action_events:
  "group_action path obj action info w =
     (Inr RetNone,
      w\<lparr>events := events w @
           [Http (POST (path @ ''/'' @ getid obj @ ''/action'')
                   (JObj [(action, info_or_null info)]))]\<rparr>)"
  by (simp add: group_action_def client_post_def send_def dropped_def Let_def)

lemma ShareManager_list_opts_bad:
  "(\<exists>k. sk = Some k \<and> k \<notin> set (SHARE_SORT_KEY_VALUES c)) \<or>
   (\<exists>d. sd = Some d \<and> d \<notin> set (SORT_DIR_VALUES c)) \<Longrightarrow>
   ShareManager_list_opts c search_opts sk sd = Inl ValueError"
  by (auto simp: ShareManager_list_opts_def checked_opt_def Let_def split: option.splits sum.splits)

lemma group_list_opts_bad:
  "(\<exists>k. sk = Some k \<and> k \<notin> set keys) \<or> (\<exists>d. sd = Some d \<and> d \<notin> set dirs) \<Longrightarrow>
   (case checked_opt keys ''sort_key'' sk opts1 of
      Inl e \<Rightarrow> Inl e
    | Inr opts2 \<Rightarrow> checked_opt dirs ''sort_dir'' sd opts2) = Inl ValueError"
  by (auto simp: checked_opt_def split: option.splits sum.splits)

lemma snapshot_list_opts_bad:
  "(\<exists>k. sk = Some k \<and> k \<notin> set (SHARE_GROUP_SNAPSHOT_INSTANCE_SORT_KEY_VALUES c)) \<or>
   (\<exists>d. sd = Some d \<and> d \<notin> set (SORT_DIR_VALUES c)) \<Longrightarrow>
   ShareGroupSnapshotInstanceManager_list_opts c g search_opts sk sd = Inl ValueError"
  by (auto simp: ShareGroupSnapshotInstanceManager_list_opts_def checked_opt_def Let_def
      split: option.splits sum.splits)

lemma dict_set_mem: "(k, v) \<in> set (dict_set d k v)"
  by (induction d) auto

lemma dict_set_keeps: "(k, v) \<in> set d \<Longrightarrow> k' \<noteq> k \<Longrightarrow> (k, v) \<in> set (dict_set d k' v')"
  by (induction d) auto

lemma checked_opt_keeps:
  "checked_opt allowed name arg opts = Inr opts' \<Longrightarrow> (k, v) \<in> set opts \<Longrightarrow> name \<noteq> k \<Longrightarrow>
   (k, v) \<in> set opts'"
  by (auto simp: checked_opt_def dict_set_keeps split: option.splits if_splits)

lemma checked_opt_other:
  "checked_opt allowed name arg opts = Inr opts' \<Longrightarrow> name \<noteq> k \<Longrightarrow> map_of opts' k = map_of opts k"
  by (auto simp: checked_opt_def dict_set_other split: option.splits if_splits)

lemma with_group_mem:
  "getid g \<noteq> [] \<Longrightarrow> (key, PyStr (getid g)) \<in> set (with_group key (Some g) opts)"
  by (cases g) (auto simp: with_group_def dict_set_mem)

lemma with_group_other:
  "k \<noteq> key \<Longrightarrow> map_of (with_group key g opts) k = map_of opts k"
  by (auto simp: with_group_def dict_set_other split: option.splits)

lemma sorted_truthy_items_set:
  "set (sorted_truthy_items opts) = {kv \<in> set opts. truthy (snd kv)}"
  by (auto simp: sorted_truthy_items_def)

lemma group_opts_mem:
  assumes "getid g \<noteq> []" "key \<noteq> ''sort_key''" "key \<noteq> ''sort_dir''"
    and "(case checked_opt keys ''sort_key'' sk (with_group key (Some g) base) of
            Inl e \<Rightarrow> Inl e
          | Inr opts2 \<Rightarrow> checked_opt dirs ''sort_dir'' sd opts2) = Inr opts"
  shows "(key, PyStr (getid g)) \<in> set (sorted_truthy_items opts)"
proof -
  from assms(4) obtain opts2 where
    a: "checked_opt keys ''sort_key'' sk (with_group key (Some g) base) = Inr opts2" and
    b: "checked_opt dirs ''sort_dir'' sd opts2 = Inr opts"
    by (auto split: sum.splits)
  have "(key, PyStr (getid g)) \<in> set opts2"
    using checked_opt_keeps [OF a with_group_mem [OF assms(1)]] assms(2) by simp
  then have "(key, PyStr (getid g)) \<in> set opts"
    using checked_opt_keeps [OF b] assms(3) by simp
  then show ?thesis using assms(1) by (simp add: sorted_truthy_items_set)
qed

lemma group_opts_other:
  assumes "k \<noteq> key" "k \<noteq> ''sort_key''" "k \<noteq> ''sort_dir''"
    and "(case checked_opt keys ''sort_key'' sk (with_group key g base) of
            Inl e \<Rightarrow> Inl e
          | Inr opts2 \<Rightarrow> checked_opt dirs ''sort_dir'' sd opts2) = Inr opts"
  shows "map_of opts k = map_of base k"
proof -
  from assms(4) obtain opts2 where
    a: "checked_opt keys ''sort_key'' sk (with_group key g base) = Inr opts2" and
    b: "checked_opt dirs ''sort_dir'' sd opts2 = Inr opts"
    by (auto split: sum.splits)
  show ?thesis
    using checked_opt_other [OF a, of k] checked_opt_other [OF b, of k] assms(1,2,3)
    by (simp add: with_group_other)
qed

subsection \<open>Version dispatch\<close>

text \<open>
  C1. Dispatch of a version-gated operation: when the caller's version lies in exactly
  one of the windows registered under the operation's name, the call is that window's
  implementation applied to the original arguments, and its result is returned as it
  is; when no registered window holds the version, the call raises
  \<^verbatim>\<open>VersionNotFoundForAPIMethod\<close> and the world is as before, no implementation having
  run. For \<^verbatim>\<open>ShareManager.force_delete\<close> (windows 1.0 to 2.6, and 2.7 onward), version 1.5
  posts \<^verbatim>\<open>os-force_delete\<close>, version 2.7 posts \<^verbatim>\<open>force_delete\<close> and version 0.9 raises.
\<close>

theorem dispatch_routes_by_window:
  "(i < length (reg name) \<and> in_window (reg name ! i) (api_version obj) \<and>
    (\<forall>j < length (reg name). in_window (reg name ! j) (api_version obj) \<longrightarrow> j = i)
      \<longrightarrow> dispatch reg name obj args w = func (reg name ! i) obj args w) \<and>
   ((\<forall>vm \<in> set (reg name). \<not> in_window vm (api_version obj))
      \<longrightarrow> dispatch reg name obj args w = (Inl VersionNotFoundForAPIMethod, w))"
proof (intro conjI impI)
  assume a: "i < length (reg name) \<and> in_window (reg name ! i) (api_version obj) \<and>
    (\<forall>j < length (reg name). in_window (reg name ! j) (api_version obj) \<longrightarrow> j = i)"
  have "find (\<lambda>vm. in_window vm (api_version obj)) (reg name) = Some (reg name ! i)"
    by (rule find_unique) (use a in auto)
  then show "dispatch reg name obj args w = func (reg name ! i) obj args w"
    by (simp add: dispatch_def)
next
  assume "\<forall>vm \<in> set (reg name). \<not> in_window vm (api_version obj)"
  then have "find (\<lambda>vm. in_window vm (api_version obj)) (reg name) = None"
    by (rule find_none)
  then show "dispatch reg name obj args w = (Inl VersionNotFoundForAPIMethod, w)"
    by (simp add: dispatch_def)
qed

theorem dispatch_routes_by_window_witness:
  "ShareManager_force_delete \<lparr>api_version = APIVersion 1 5, hooks_map = []\<rparr> (RawId ''s1'')
      \<lparr>default_headers = [], events = []\<rparr> =
     (Inr (RetRaw (POST ''/shares/s1/action'' (JObj [(''os-force_delete'', JNull)]))),
      \<lparr>default_headers = [],
       events = [Http (POST ''/shares/s1/action'' (JObj [(''os-force_delete'', JNull)]))]\<rparr>) \<and>
   ShareManager_force_delete \<lparr>api_version = APIVersion 2 7, hooks_map = []\<rparr> (RawId ''s1'')
      \<lparr>default_headers = [], events = []\<rparr> =
     (Inr (RetRaw (POST ''/shares/s1/action'' (JObj [(''force_delete'', JNull)]))),
      \<lparr>default_headers = [],
       events = [Http (POST ''/shares/s1/action'' (JObj [(''force_delete'', JNull)]))]\<rparr>) \<and>
   ShareManager_force_delete \<lparr>api_version = APIVersion 0 9, hooks_map = []\<rparr> (RawId ''s1'')
      \<lparr>default_headers = [], events = []\<rparr> =
     (Inl VersionNotFoundForAPIMethod, \<lparr>default_headers = [], events = []\<rparr>)"
proof -
  let ?w = "\<lparr>default_headers = [], events = []\<rparr>"
  let ?m15 = "\<lparr>api_version = APIVersion 1 5, hooks_map = []\<rparr>"
  let ?m27 = "\<lparr>api_version = APIVersion 2 7, hooks_map = []\<rparr>"
  let ?m09 = "\<lparr>api_version = APIVersion 0 9, hooks_map = []\<rparr>"
  note ev = force_delete_registry_entries in_window_def less_Suc_eq
  have a: "dispatch force_delete_registry ''force_delete'' ?m15 (RawId ''s1'') ?w =
           force_delete_1_0 ?m15 (RawId ''s1'') ?w"
    using dispatch_routes_by_window [of 0 force_delete_registry "''force_delete''" ?m15 "RawId ''s1''" ?w]
    by (simp add: ev)
  have b: "dispatch force_delete_registry ''force_delete'' ?m27 (RawId ''s1'') ?w =
           force_delete_2_7 ?m27 (RawId ''s1'') ?w"
    using dispatch_routes_by_window [of 1 force_delete_registry "''force_delete''" ?m27 "RawId ''s1''" ?w]
    by (simp add: ev)
  have c: "dispatch force_delete_registry ''force_delete'' ?m09 (RawId ''s1'') ?w =
           (Inl VersionNotFoundForAPIMethod, ?w)"
    using dispatch_routes_by_window [of 0 force_delete_registry "''force_delete''" ?m09 "RawId ''s1''" ?w]
    by (simp add: ev)
  show ?thesis
    unfolding ShareManager_force_delete_def a b c
    by (simp add: force_delete_1_0_def force_delete_2_7_def do_force_delete_def
        ShareManager_action_def run_hooks_empty client_post_def send_def returned_def
        info_or_null_def Let_def)
qed


text \<open>
  The two gated operations the claim names, for every version of the caller:
  \<^verbatim>\<open>force_delete\<close> has the windows 1.0 to 2.6 and 2.7 onward, \<^verbatim>\<open>migrate_share\<close> the
  windows 2.5 to 2.6 and 2.7 onward.
\<close>

lemma migrate_share_registry_entries:
  "migrate_share_registry ''migrate_share'' =
     [\<lparr>vm_name = ''migrate_share'', start_version = APIVersion 2 5,
       end_version = Some (APIVersion 2 6), func = migrate_share_2_5, is_experimental = False\<rparr>,
      \<lparr>vm_name = ''migrate_share'', start_version = APIVersion 2 7, end_version = None,
        func = migrate_share_2_7, is_experimental = False\<rparr>]"
  by (simp add: migrate_share_registry_def add_versioned_method_def empty_registry_def)

lemma force_delete_routes:
  "ShareManager_force_delete obj share w =
     (if version_le (APIVersion 1 0) (api_version obj) \<and>
         version_le (api_version obj) (APIVersion 2 6)
      then force_delete_1_0 obj share w
      else if version_le (APIVersion 2 7) (api_version obj)
      then force_delete_2_7 obj share w
      else (Inl VersionNotFoundForAPIMethod, w))"
  by (simp add: ShareManager_force_delete_def dispatch_def force_delete_registry_entries
      in_window_def)

lemma migrate_share_routes:
  "ShareManager_migrate_share obj args w =
     (if version_le (APIVersion 2 5) (api_version obj) \<and>
         version_le (api_version obj) (APIVersion 2 6)
      then migrate_share_2_5 obj args w
      else if version_le (APIVersion 2 7) (api_version obj)
      then migrate_share_2_7 obj args w
      else (Inl VersionNotFoundForAPIMethod, w))"
  by (simp add: ShareManager_migrate_share_def dispatch_def migrate_share_registry_entries
      in_window_def)

subsection \<open>The experimental wrapper\<close>

text \<open>
  C2. When the first argument is an instance of the recognised client class, the
  wrapper stores \<^verbatim>\<open>true\<close> under the experimental header in the shared default headers
  (every other header and the event log are as before) and only then calls the wrapped
  function, on that world; the world it leaves is the one the wrapped function leaves,
  so the wrapper never takes the header out, and the header stands after a wrapped
  function that leaves the headers alone. When the first argument is not such an
  instance, the wrapped function is called on the world as it was, and the headers are
  unchanged after a wrapped function that leaves them alone.
\<close>

theorem experimental_api_header:
  "(is_v1_client client \<longrightarrow>
      header_is_true c (flagged c w) \<and>
      events (flagged c w) = events w \<and>
      (\<forall>k. k \<noteq> EXPERIMENTAL_HTTP_HEADER c \<longrightarrow>
           map_of (default_headers (flagged c w)) k = map_of (default_headers w) k) \<and>
      snd (experimental_api c is_v1_client f client args w) = snd (f client args (flagged c w)) \<and>
      (default_headers (snd (f client args (flagged c w))) = default_headers (flagged c w) \<longrightarrow>
         header_is_true c (snd (experimental_api c is_v1_client f client args w)))) \<and>
   (\<not> is_v1_client client \<longrightarrow>
      snd (experimental_api c is_v1_client f client args w) = snd (f client args w) \<and>
      (default_headers (snd (f client args w)) = default_headers w \<longrightarrow>
         default_headers (snd (experimental_api c is_v1_client f client args w)) = default_headers w))"
  by (simp add: experimental_api_world header_is_true_def flagged_def dict_set_lookup dict_set_other)

theorem experimental_api_header_witness:
  "snd (experimental_api example_constants (\<lambda>m. True) ShareGroupReplicaManager_get
          \<lparr>api_version = APIVersion 2 56, hooks_map = []\<rparr> (RawId ''r1'')
          \<lparr>default_headers = [(''Accept'', ''application/json'')], events = []\<rparr>) =
     \<lparr>default_headers = [(''Accept'', ''application/json''),
                         (''X-Openstack-Manila-Api-Experimental'', ''true'')],
      events = [Http (GET ''/share-group-replicas/r1'')]\<rparr> \<and>
   snd (experimental_api example_constants (\<lambda>m. False) ShareGroupReplicaManager_get
          \<lparr>api_version = APIVersion 2 56, hooks_map = []\<rparr> (RawId ''r1'')
          \<lparr>default_headers = [(''Accept'', ''application/json'')], events = []\<rparr>) =
     \<lparr>default_headers = [(''Accept'', ''application/json'')],
      events = [Http (GET ''/share-group-replicas/r1'')]\<rparr>"
proof -
  let ?m = "\<lparr>api_version = APIVersion 2 56, hooks_map = []\<rparr>"
  let ?w = "\<lparr>default_headers = [(''Accept'', ''application/json'')], events = []\<rparr>"
  have a: "snd (experimental_api example_constants (\<lambda>m. True) ShareGroupReplicaManager_get ?m
                  (RawId ''r1'') ?w) =
           snd (ShareGroupReplicaManager_get ?m (RawId ''r1'') (flagged example_constants ?w))"
    using experimental_api_header [of "\<lambda>m. True" ?m example_constants ?w
        ShareGroupReplicaManager_get "RawId ''r1''"]
    by simp
  have b: "snd (experimental_api example_constants (\<lambda>m. False) ShareGroupReplicaManager_get ?m
                  (RawId ''r1'') ?w) =
           snd (ShareGroupReplicaManager_get ?m (RawId ''r1'') ?w)"
    using experimental_api_header [of "\<lambda>m. False" ?m example_constants ?w
        ShareGroupReplicaManager_get "RawId ''r1''"]
    by simp
  show ?thesis
    unfolding a b
    by (simp add: ShareGroupReplicaManager_get_def manager_get_def returned_def send_def
        flagged_def example_constants_def Let_def)
qed

text \<open>
  C3. The wrapper returns \<^verbatim>\<open>None\<close> whenever it returns: whatever value the wrapped
  function returned is dropped. \<^verbatim>\<open>ShareGroupReplicaManager.get\<close> returns the parsed
  replica, and under the wrapper the caller receives \<^verbatim>\<open>None\<close>.
\<close>

theorem experimental_api_returns_None:
  "(\<forall>r. fst (experimental_api c is_v1_client f client args w) = Inr r \<longrightarrow> r = RetNone) \<and>
   (\<forall>r. fst (f client args
              (if is_v1_client client then flagged c w else w)) = Inr r \<longrightarrow>
        fst (experimental_api c is_v1_client f client args w) = Inr RetNone)"
  by (auto simp: experimental_api_value flagged_def split: sum.splits)

theorem experimental_api_returns_None_witness:
  "fst (ShareGroupReplicaManager_get \<lparr>api_version = APIVersion 2 56, hooks_map = []\<rparr>
          (RawId ''r1'') \<lparr>default_headers = [], events = []\<rparr>) =
     Inr (RetParsed ''share_group_replica'' (GET ''/share-group-replicas/r1'')) \<and>
   fst (experimental_api example_constants (\<lambda>m. False) ShareGroupReplicaManager_get
          \<lparr>api_version = APIVersion 2 56, hooks_map = []\<rparr> (RawId ''r1'')
          \<lparr>default_headers = [], events = []\<rparr>) = Inr RetNone"
proof -
  let ?m = "\<lparr>api_version = APIVersion 2 56, hooks_map = []\<rparr>"
  let ?w = "\<lparr>default_headers = [], events = []\<rparr>"
  have g: "fst (ShareGroupReplicaManager_get ?m (RawId ''r1'') ?w) =
           Inr (RetParsed ''share_group_replica'' (GET ''/share-group-replicas/r1''))"
    by (simp add: ShareGroupReplicaManager_get_def manager_get_def returned_def Let_def)
  then have "fst (experimental_api example_constants (\<lambda>m. False) ShareGroupReplicaManager_get
                    ?m (RawId ''r1'') ?w) = Inr RetNone"
    using experimental_api_returns_None [of example_constants "\<lambda>m. False"
        ShareGroupReplicaManager_get ?m "RawId ''r1''" ?w]
    by simp
  with g show ?thesis by simp
qed

subsection \<open>Argument validation\<close>

text \<open>
  C7. \<^verbatim>\<open>extract_properties\<close> returns the dictionary of the items' keys and values when
  every item has a \<^verbatim>\<open>=\<close> and no key occurs twice, and raises \<^verbatim>\<open>CommandError\<close>
  otherwise: \<^verbatim>\<open>["a=1","b=2"]\<close> gives \<^verbatim>\<open>{"a":"1","b":"2"}\<close>, while \<^verbatim>\<open>["a=1","a=2"]\<close>
  (the key twice) and \<^verbatim>\<open>["bogus"]\<close> (no separator) raise \<^verbatim>\<open>CommandError\<close>.
\<close>

theorem extract_properties_result:
  "extract_properties ps =
     (if (\<forall>item \<in> set ps. CHR ''='' \<in> set item) \<and> distinct (map key_of ps)
      then Inr (map (\<lambda>item. (key_of item, value_of item)) ps)
      else Inl CommandError)"
  by (simp add: extract_properties_def extract_properties_loop_char)

theorem extract_properties_result_witness:
  "extract_properties [''a=1'', ''b=2''] = Inr [(''a'', ''1''), (''b'', ''2'')] \<and>
   extract_properties [''a=1'', ''a=2''] = Inl CommandError \<and>
   extract_properties [''bogus''] = Inl CommandError"
  using extract_properties_result [of "[''a=1'', ''b=2'']"]
    extract_properties_result [of "[''a=1'', ''a=2'']"]
    extract_properties_result [of "[''bogus'']"]
  by (simp add: key_of_def value_of_def)

text \<open>
  C8. \<^verbatim>\<open>_validate_ip_range\<close> returns for \<^verbatim>\<open>10.0.0.2\<close> and \<^verbatim>\<open>10.0.0.0/24\<close>, and raises
  \<^verbatim>\<open>CommandError\<close> for \<^verbatim>\<open>10.0.0.0/33\<close> (the prefix is above 32), for \<^verbatim>\<open>10.0.0\<close> (three
  dotted items) and for \<^verbatim>\<open>999.0.0.1\<close> (an item above 255).
\<close>

theorem validate_ip_range_examples:
  "validate_ip_range ''10.0.0.2'' = Inr () \<and>
   validate_ip_range ''10.0.0.0/24'' = Inr () \<and>
   validate_ip_range ''10.0.0.0/33'' = Inl CommandError \<and>
   validate_ip_range ''10.0.0'' = Inl CommandError \<and>
   validate_ip_range ''999.0.0.1'' = Inl CommandError"
  by code_simp

text \<open>
  What \<^verbatim>\<open>_validate_username\<close> accepts: the names of 4 to 32 characters of the class, and
  those names followed by one newline. So every name of 4 to 32 characters of the class
  is accepted, every name shorter than four characters is rejected, and a character
  outside the class is rejected unless it is a newline that ends the name.
\<close>

lemma match_username_iff:
  "match_username s \<longleftrightarrow>
     (\<exists>n. 4 \<le> n \<and> n \<le> 32 \<and> n \<le> length (takeWhile username_char s) \<and> at_dollar (drop n s))"
proof -
  have "match_username s \<longleftrightarrow>
      (\<exists>n \<in> set [4 ..< Suc (min 32 (length (takeWhile username_char s)))]. at_dollar (drop n s))"
    by (simp add: match_username_def list_ex_iff Let_def del: upt_Suc)
  also have "\<dots> \<longleftrightarrow>
      (\<exists>n. 4 \<le> n \<and> n \<le> 32 \<and> n \<le> length (takeWhile username_char s) \<and> at_dollar (drop n s))"
    by (simp only: set_upt atLeastLessThan_iff less_Suc_eq_le min.bounded_iff Bex_def conj_assoc)
  finally show ?thesis .
qed

lemma take_within_run:
  assumes "n \<le> length (takeWhile P s)" and "c \<in> set (take n s)"
  shows "P c"
proof -
  have "take n s = take n (takeWhile P s @ dropWhile P s)" by simp
  also have "\<dots> = take n (takeWhile P s)" using assms(1) by (simp del: takeWhile_dropWhile_id)
  finally have "c \<in> set (takeWhile P s)" using assms(2) by (auto dest: in_set_takeD)
  then show ?thesis by (rule set_takeWhileD [THEN conjunct2])
qed

lemma newline_not_username_char: "\<not> username_char (CHR 0x0A)"
  by (simp add: username_char_def is_word_char_def)



lemma validate_username_accepts_iff:
  "validate_username s = Inr () \<longleftrightarrow>
     (\<exists>t. (s = t \<or> s = t @ [CHR 0x0A]) \<and> 4 \<le> length t \<and> length t \<le> 32 \<and>
          (\<forall>c \<in> set t. username_char c))"
proof
  assume "validate_username s = Inr ()"
  then have "match_username s" by (simp add: validate_username_def split: if_splits)
  then obtain n where n: "4 \<le> n" "n \<le> 32" "n \<le> length (takeWhile username_char s)"
      "at_dollar (drop n s)"
    unfolding match_username_iff by blast
  have len: "n \<le> length s"
    using n(3) length_takeWhile_le [of username_char s] by linarith
  have split: "s = take n s @ drop n s" by simp
  from n(4) have "drop n s = [] \<or> drop n s = [CHR 0x0A]"
    by (simp only: at_dollar_def)
  then have "s = take n s \<or> s = take n s @ [CHR 0x0A]"
  proof
    assume "drop n s = []"
    with split show ?thesis by simp
  next
    assume "drop n s = [CHR 0x0A]"
    with split have "s = take n s @ [CHR 0x0A]" by (simp only:)
    then show ?thesis ..
  qed
  moreover have "length (take n s) = n" using len by simp
  moreover have "\<forall>c \<in> set (take n s). username_char c"
    using take_within_run [OF n(3)] by blast
  ultimately have "(s = take n s \<or> s = take n s @ [CHR 0x0A]) \<and> 4 \<le> length (take n s) \<and>
      length (take n s) \<le> 32 \<and> (\<forall>c \<in> set (take n s). username_char c)"
    using n(1,2) by simp
  then show "\<exists>t. (s = t \<or> s = t @ [CHR 0x0A]) \<and> 4 \<le> length t \<and> length t \<le> 32 \<and>
          (\<forall>c \<in> set t. username_char c)"
    by (rule exI)
next
  assume "\<exists>t. (s = t \<or> s = t @ [CHR 0x0A]) \<and> 4 \<le> length t \<and> length t \<le> 32 \<and>
          (\<forall>c \<in> set t. username_char c)"
  then obtain t where t: "s = t \<or> s = t @ [CHR 0x0A]" "4 \<le> length t" "length t \<le> 32"
      "\<forall>c \<in> set t. username_char c"
    by blast
  from t(1) have "takeWhile username_char s = t \<and> at_dollar (drop (length t) s)"
  proof
    assume "s = t"
    then show ?thesis using t(4) by (simp add: takeWhile_eq_all_conv at_dollar_def)
  next
    assume "s = t @ [CHR 0x0A]"
    then show ?thesis
      using t(4) newline_not_username_char by (simp add: takeWhile_append2 at_dollar_def)
  qed
  then have "4 \<le> length t \<and> length t \<le> 32 \<and> length t \<le> length (takeWhile username_char s) \<and>
      at_dollar (drop (length t) s)"
    using t(2,3) by simp
  then have "match_username s"
    unfolding match_username_iff by (rule exI)
  then show "validate_username s = Inr ()" by (simp add: validate_username_def)
qed


lemma validate_username_accepts:
  assumes "4 \<le> length s" "length s \<le> 32" "\<forall>c \<in> set s. username_char c"
  shows "validate_username s = Inr ()"
proof -
  have "(s = s \<or> s = s @ [CHR 0x0A]) \<and> 4 \<le> length s \<and> length s \<le> 32 \<and>
      (\<forall>c \<in> set s. username_char c)"
    using assms by simp
  then have "\<exists>t. (s = t \<or> s = t @ [CHR 0x0A]) \<and> 4 \<le> length t \<and> length t \<le> 32 \<and>
      (\<forall>c \<in> set t. username_char c)"
    by (rule exI)
  then show ?thesis by (simp only: validate_username_accepts_iff)
qed

lemma validate_username_rejects_short:
  assumes "length s < 4"
  shows "validate_username s = Inl CommandError"
proof -
  have "length (takeWhile username_char s) < 4"
    using assms length_takeWhile_le [of username_char s] by linarith
  then have "\<not> match_username s"
    unfolding match_username_iff by auto
  then show ?thesis by (simp add: validate_username_def)
qed

lemma validate_username_rejects_foreign:
  assumes "c \<in> set s" "\<not> username_char c" "validate_username s = Inr ()"
  shows "c = CHR 0x0A \<and> s = butlast s @ [CHR 0x0A] \<and> (\<forall>d \<in> set (butlast s). username_char d)"
proof -
  from assms(3) obtain t where t: "s = t \<or> s = t @ [CHR 0x0A]"
      "\<forall>d \<in> set t. username_char d"
    unfolding validate_username_accepts_iff by blast
  from t(1) show ?thesis
  proof
    assume "s = t"
    with t(2) assms(1,2) show ?thesis by simp
  next
    assume e: "s = t @ [CHR 0x0A]"
    then have "butlast s = t" by simp
    moreover have "c = CHR 0x0A" using e t(2) assms(1,2) by auto
    ultimately show ?thesis using e t(2) by simp
  qed
qed

text \<open>
  C9. \<^verbatim>\<open>_validate_username\<close> on four characters of the allowed class followed by a
  newline: \<^verbatim>\<open>$\<close> matches before the final newline, so the name is accepted although the
  newline is outside the class. (The two other parts of the claim hold:
  \<open>validate_username_accepts\<close>, \<open>validate_username_rejects_short\<close>.)
\<close>

theorem validate_username_trailing_newline:
  "validate_username (''abcd'' @ [CHR 0x0A]) = Inr () \<and> \<not> username_char (CHR 0x0A)"
  by code_simp

subsection \<open>Actions\<close>

text \<open>
  C4, as the code has it. \<^verbatim>\<open>ShareManager._action\<close> builds the body
  \<^verbatim>\<open>{action: info}\<close> (\<^verbatim>\<open>info\<close> is null when absent), calls every hook registered under
  \<^verbatim>\<open>modify_body_for_action\<close> on it in registration order, and then issues exactly one
  POST, to \<^verbatim>\<open>/shares/<id>/action\<close>, with the body as the hooks left it, returning the
  transport's answer. The \<^verbatim>\<open>_action\<close> of \<^verbatim>\<open>ShareGroupReplicaManager\<close>,
  \<^verbatim>\<open>ShareGroupInstanceManager\<close> and \<^verbatim>\<open>ShareGroupSnapshotInstanceManager\<close> issues exactly
  one POST, to \<^verbatim>\<open><resource-path>/<id>/action\<close> with the body \<^verbatim>\<open>{action: info}\<close>, calls
  no hook and returns \<^verbatim>\<open>None\<close>.
\<close>

theorem action_posts_once:
  "ShareManager_action self action share info w =
     (Inr (RetRaw (POST (''/shares/'' @ getid share @ ''/action'')
            (fold (\<lambda>h b. snd h b)
               (case map_of (hooks_map self) ''modify_body_for_action'' of
                  None \<Rightarrow> [] | Some hs \<Rightarrow> hs)
               (JObj [(action, info_or_null info)])))),
      w\<lparr>events := events w @ claimed_action_events self ''/shares'' share action info\<rparr>) \<and>
   ShareGroupReplicaManager_action self obj action info w =
     (Inr RetNone,
      w\<lparr>events := events w @
           [Http (POST (''/share-group-replicas/'' @ getid obj @ ''/action'')
                   (JObj [(action, info_or_null info)]))]\<rparr>) \<and>
   ShareGroupInstanceManager_action self obj action info w =
     (Inr RetNone,
      w\<lparr>events := events w @
           [Http (POST (''/share-group-instances/'' @ getid obj @ ''/action'')
                   (JObj [(action, info_or_null info)]))]\<rparr>) \<and>
   ShareGroupSnapshotInstanceManager_action self obj action info w =
     (Inr RetNone,
      w\<lparr>events := events w @
           [Http (POST (''/share-group-snapshot-instances/'' @ getid obj @ ''/action'')
                   (JObj [(action, info_or_null info)]))]\<rparr>) \<and>
   info_or_null None = JNull"
  by (simp add: ShareManager_action_events ShareGroupReplicaManager_action_def
      ShareGroupInstanceManager_action_def ShareGroupSnapshotInstanceManager_action_def
      group_action_events info_or_null_def)

text \<open>
  C4 as stated fails for the share-group managers: with a hook registered under
  \<^verbatim>\<open>modify_body_for_action\<close> (one that leaves the body as it is),
  \<^verbatim>\<open>ShareGroupReplicaManager._action\<close> does not produce the events of a hook call
  followed by the POST; it only posts.
\<close>

theorem group_action_runs_no_hook:
  "snd (ShareGroupReplicaManager_action
          \<lparr>api_version = APIVersion 2 56,
           hooks_map = [(''modify_body_for_action'', [(''h1'', id)])]\<rparr>
          (RawId ''r1'') ''promote'' None \<lparr>default_headers = [], events = []\<rparr>) \<noteq>
   \<lparr>default_headers = [],
    events = claimed_action_events
               \<lparr>api_version = APIVersion 2 56,
                hooks_map = [(''modify_body_for_action'', [(''h1'', id)])]\<rparr>
               ''/share-group-replicas'' (RawId ''r1'') ''promote'' None\<rparr>"
  by (simp add: ShareGroupReplicaManager_action_def group_action_events
      claimed_action_events_def Let_def)

subsection \<open>List operations\<close>

text \<open>
  C5. In each manager's \<^verbatim>\<open>list\<close>, a \<^verbatim>\<open>sort_key\<close> that is not \<^verbatim>\<open>None\<close> and not in the
  manager's tuple of sort keys, or a \<^verbatim>\<open>sort_dir\<close> that is not \<^verbatim>\<open>None\<close> and not in
  \<^verbatim>\<open>SORT_DIR_VALUES\<close>, raises \<^verbatim>\<open>ValueError\<close> (the spec's InvalidInput) with the world
  as it was: no request has been issued. The statement is about the functions as
  \<^verbatim>\<open>shares.py\<close> and the share-group modules define them, under their decorators.
\<close>

theorem list_rejects_bad_sort:
  "((\<exists>k. sk = Some k \<and> k \<notin> set (SHARE_SORT_KEY_VALUES c)) \<or>
    (\<exists>d. sd = Some d \<and> d \<notin> set (SORT_DIR_VALUES c)) \<longrightarrow>
      ShareManager_list c self detailed search_opts sk sd w = (Inl ValueError, w)) \<and>
   ((\<exists>k. sk = Some k \<and> k \<notin> set (SHARE_GROUP_REPLICA_SORT_KEY_VALUES c)) \<or>
    (\<exists>d. sd = Some d \<and> d \<notin> set (SORT_DIR_VALUES c)) \<longrightarrow>
      ShareGroupReplicaManager_list c self g detailed search_opts sk sd w = (Inl ValueError, w)) \<and>
   ((\<exists>k. sk = Some k \<and> k \<notin> set (SHARE_GROUP_INSTANCE_SORT_KEY_VALUES c)) \<or>
    (\<exists>d. sd = Some d \<and> d \<notin> set (SORT_DIR_VALUES c)) \<longrightarrow>
      ShareGroupInstanceManager_list c self g detailed search_opts sk sd w = (Inl ValueError, w)) \<and>
   ((\<exists>k. sk = Some k \<and> k \<notin> set (SHARE_GROUP_SNAPSHOT_INSTANCE_SORT_KEY_VALUES c)) \<or>
    (\<exists>d. sd = Some d \<and> d \<notin> set (SORT_DIR_VALUES c)) \<longrightarrow>
      ShareGroupSnapshotInstanceManager_list c self g detailed search_opts sk sd w =
        (Inl ValueError, w))"
proof (intro conjI impI)
  assume "(\<exists>k. sk = Some k \<and> k \<notin> set (SHARE_SORT_KEY_VALUES c)) \<or>
    (\<exists>d. sd = Some d \<and> d \<notin> set (SORT_DIR_VALUES c))"
  then show "ShareManager_list c self detailed search_opts sk sd w = (Inl ValueError, w)"
    by (simp add: ShareManager_list_def ShareManager_list_opts_bad)
next
  assume "(\<exists>k. sk = Some k \<and> k \<notin> set (SHARE_GROUP_REPLICA_SORT_KEY_VALUES c)) \<or>
    (\<exists>d. sd = Some d \<and> d \<notin> set (SORT_DIR_VALUES c))"
  then show "ShareGroupReplicaManager_list c self g detailed search_opts sk sd w =
      (Inl ValueError, w)"
    by (simp add: ShareGroupReplicaManager_list_def ShareGroupReplicaManager_list_opts_def
        group_list_opts_bad)
next
  assume "(\<exists>k. sk = Some k \<and> k \<notin> set (SHARE_GROUP_INSTANCE_SORT_KEY_VALUES c)) \<or>
    (\<exists>d. sd = Some d \<and> d \<notin> set (SORT_DIR_VALUES c))"
  then show "ShareGroupInstanceManager_list c self g detailed search_opts sk sd w =
      (Inl ValueError, w)"
    by (simp add: ShareGroupInstanceManager_list_def ShareGroupInstanceManager_list_opts_def
        group_list_opts_bad)
next
  assume "(\<exists>k. sk = Some k \<and> k \<notin> set (SHARE_GROUP_SNAPSHOT_INSTANCE_SORT_KEY_VALUES c)) \<or>
    (\<exists>d. sd = Some d \<and> d \<notin> set (SORT_DIR_VALUES c))"
  then show "ShareGroupSnapshotInstanceManager_list c self g detailed search_opts sk sd w =
      (Inl ValueError, w)"
    by (simp add: ShareGroupSnapshotInstanceManager_list_def snapshot_list_opts_bad)
qed

theorem list_rejects_bad_sort_witness:
  "ShareManager_list example_constants \<lparr>api_version = APIVersion 2 7, hooks_map = []\<rparr> True
      None (Some ''bogus'') None \<lparr>default_headers = [], events = []\<rparr> =
     (Inl ValueError, \<lparr>default_headers = [], events = []\<rparr>) \<and>
   ShareGroupReplicaManager_list example_constants
      \<lparr>api_version = APIVersion 2 56, hooks_map = []\<rparr> None True None (Some ''status'')
      (Some ''up'') \<lparr>default_headers = [], events = []\<rparr> =
     (Inl ValueError, \<lparr>default_headers = [], events = []\<rparr>) \<and>
   ShareGroupInstanceManager_list example_constants
      \<lparr>api_version = APIVersion 2 56, hooks_map = []\<rparr> None True None (Some ''bogus'')
      (Some ''asc'') \<lparr>default_headers = [], events = []\<rparr> =
     (Inl ValueError, \<lparr>default_headers = [], events = []\<rparr>) \<and>
   ShareGroupSnapshotInstanceManager_list example_constants
      \<lparr>api_version = APIVersion 2 56, hooks_map = []\<rparr> None False None None
      (Some ''up'') \<lparr>default_headers = [], events = []\<rparr> =
     (Inl ValueError, \<lparr>default_headers = [], events = []\<rparr>)"
  using
    list_rejects_bad_sort [where c = example_constants and sk = "Some ''bogus''" and sd = None
      and self = "\<lparr>api_version = APIVersion 2 7, hooks_map = []\<rparr>" and detailed = True
      and search_opts = None and w = "\<lparr>default_headers = [], events = []\<rparr>"]
    list_rejects_bad_sort [where c = example_constants and sk = "Some ''status''"
      and sd = "Some ''up''" and self = "\<lparr>api_version = APIVersion 2 56, hooks_map = []\<rparr>"
      and detailed = True and search_opts = None and g = None
      and w = "\<lparr>default_headers = [], events = []\<rparr>"]
    list_rejects_bad_sort [where c = example_constants and sk = "Some ''bogus''"
      and sd = "Some ''asc''" and self = "\<lparr>api_version = APIVersion 2 56, hooks_map = []\<rparr>"
      and detailed = True and search_opts = None and g = None
      and w = "\<lparr>default_headers = [], events = []\<rparr>"]
    list_rejects_bad_sort [where c = example_constants and sk = None
      and sd = "Some ''up''" and self = "\<lparr>api_version = APIVersion 2 56, hooks_map = []\<rparr>"
      and detailed = False and search_opts = None and g = None
      and w = "\<lparr>default_headers = [], events = []\<rparr>"]
  by (simp add: example_constants_def)


text \<open>
  \<^verbatim>\<open>ShareManager.list\<close> stores \<^verbatim>\<open>is_public = True\<close> when the caller's filters do not have
  the key, before the query string is built: with the same mapping as the caller's
  filters its request carries \<^verbatim>\<open>is_public=True\<close> between the two other pairs, and with
  \<^verbatim>\<open>is_public\<close> given as \<^verbatim>\<open>False\<close> the query is that of the two pairs.
\<close>

lemma ShareManager_list_default_is_public:
  "fst (ShareManager_list example_constants \<lparr>api_version = APIVersion 2 7, hooks_map = []\<rparr>
          False
          (Some [(''status'', PyStr ''available''), (''b'', PyStr []), (''a'', PyStr ''x'')])
          None None \<lparr>default_headers = [], events = []\<rparr>) =
     Inr (RetParsed ''shares'' (GET ''/shares?a=x&is_public=True&status=available'')) \<and>
   fst (ShareManager_list example_constants \<lparr>api_version = APIVersion 2 7, hooks_map = []\<rparr>
          False
          (Some [(''status'', PyStr ''available''), (''b'', PyStr []), (''a'', PyStr ''x''),
                 (''is_public'', PyBool False)])
          None None \<lparr>default_headers = [], events = []\<rparr>) =
     Inr (RetParsed ''shares'' (GET ''/shares?a=x&status=available''))"
  by (simp add: ShareManager_list_def ShareManager_list_opts_def checked_opt_def dict_has_def
      sorted_truthy_items_def urlencode_def quote_plus_def quote_char_def is_word_char_def
      manager_list_def returned_def Let_def)

text \<open>
  The same mapping as the filters of \<^verbatim>\<open>ShareGroupReplicaManager.list\<close>, whose query
  string \<^verbatim>\<open>_build_query_string\<close> makes.
\<close>

lemma group_list_query_example:
  "fst (ShareGroupReplicaManager_list example_constants
          \<lparr>api_version = APIVersion 2 56, hooks_map = []\<rparr> None False
          (Some [(''status'', PyStr ''available''), (''b'', PyStr []), (''a'', PyStr ''x'')])
          None None \<lparr>default_headers = [], events = []\<rparr>) =
     Inr (RetParsed ''share_group_replicas''
            (GET ''/share-group-replicas?a=x&status=available''))"
  by (simp add: ShareGroupReplicaManager_list_def ShareGroupReplicaManager_list_opts_def
      with_group_def opts_or_empty_def checked_opt_def list_request_def manager_list_def
      returned_def build_query_string_def sorted_truthy_items_def urlencode_def quote_plus_def
      quote_char_def is_word_char_def Let_def)

text \<open>
  C10. With a \<^verbatim>\<open>share_group\<close> argument whose id is not empty,
  \<^verbatim>\<open>ShareGroupReplicaManager.list\<close> puts the group's id among the encoded pairs under
  the key \<^verbatim>\<open>share_id\<close>, and leaves \<^verbatim>\<open>share_group_id\<close> as the caller's filters have it;
  \<^verbatim>\<open>ShareGroupInstanceManager.list\<close> puts it under \<^verbatim>\<open>share_group_id\<close>, and leaves
  \<^verbatim>\<open>share_id\<close> as the caller's filters have it.
\<close>

theorem group_filter_keys:
  "getid g \<noteq> [] \<longrightarrow>
     (ShareGroupReplicaManager_list_opts c (Some g) search_opts sk sd = Inr opts \<longrightarrow>
        (''share_id'', PyStr (getid g)) \<in> set (sorted_truthy_items opts) \<and>
        map_of opts ''share_group_id'' = map_of (opts_or_empty search_opts) ''share_group_id'') \<and>
     (ShareGroupInstanceManager_list_opts c (Some g) search_opts sk sd = Inr opts' \<longrightarrow>
        (''share_group_id'', PyStr (getid g)) \<in> set (sorted_truthy_items opts') \<and>
        map_of opts' ''share_id'' = map_of (opts_or_empty search_opts) ''share_id'')"
proof (intro impI conjI)
  assume g: "getid g \<noteq> []"
    and r: "ShareGroupReplicaManager_list_opts c (Some g) search_opts sk sd = Inr opts"
  from r have r': "(case checked_opt (SHARE_GROUP_REPLICA_SORT_KEY_VALUES c) ''sort_key'' sk
                          (with_group ''share_id'' (Some g) (opts_or_empty search_opts)) of
                      Inl e \<Rightarrow> Inl e
                    | Inr opts2 \<Rightarrow> checked_opt (SORT_DIR_VALUES c) ''sort_dir'' sd opts2) = Inr opts"
    by (simp add: ShareGroupReplicaManager_list_opts_def Let_def)
  show "(''share_id'', PyStr (getid g)) \<in> set (sorted_truthy_items opts)"
    by (rule group_opts_mem [OF g _ _ r']) simp_all
  show "map_of opts ''share_group_id'' = map_of (opts_or_empty search_opts) ''share_group_id''"
    by (rule group_opts_other [OF _ _ _ r']) simp_all
next
  assume g: "getid g \<noteq> []"
    and i: "ShareGroupInstanceManager_list_opts c (Some g) search_opts sk sd = Inr opts'"
  from i have i': "(case checked_opt (SHARE_GROUP_INSTANCE_SORT_KEY_VALUES c) ''sort_key'' sk
                          (with_group ''share_group_id'' (Some g) (opts_or_empty search_opts)) of
                      Inl e \<Rightarrow> Inl e
                    | Inr opts2 \<Rightarrow> checked_opt (SORT_DIR_VALUES c) ''sort_dir'' sd opts2) = Inr opts'"
    by (simp add: ShareGroupInstanceManager_list_opts_def Let_def)
  show "(''share_group_id'', PyStr (getid g)) \<in> set (sorted_truthy_items opts')"
    by (rule group_opts_mem [OF g _ _ i']) simp_all
  show "map_of opts' ''share_id'' = map_of (opts_or_empty search_opts) ''share_id''"
    by (rule group_opts_other [OF _ _ _ i']) simp_all
qed

theorem group_filter_keys_witness:
  "(''share_id'', PyStr ''g1'') \<in> set (sorted_truthy_items [(''share_id'', PyStr ''g1'')]) \<and>
   (''share_group_id'', PyStr ''g1'') \<in>
      set (sorted_truthy_items [(''share_group_id'', PyStr ''g1'')]) \<and>
   fst (ShareGroupReplicaManager_list example_constants
          \<lparr>api_version = APIVersion 2 56, hooks_map = []\<rparr> (Some (RawId ''g1'')) True None
          None None \<lparr>default_headers = [], events = []\<rparr>) =
     Inr (RetParsed ''share_group_replicas''
            (GET ''/share-group-replicas/detail?share_id=g1'')) \<and>
   fst (ShareGroupInstanceManager_list example_constants
          \<lparr>api_version = APIVersion 2 56, hooks_map = []\<rparr> (Some (RawId ''g1'')) True None
          None None \<lparr>default_headers = [], events = []\<rparr>) =
     Inr (RetParsed ''share_group_instances''
            (GET ''/share-group-instances/detail?share_group_id=g1''))"
proof -
  have r: "ShareGroupReplicaManager_list_opts example_constants (Some (RawId ''g1'')) None
             None None = Inr [(''share_id'', PyStr ''g1'')]"
    by (simp add: ShareGroupReplicaManager_list_opts_def with_group_def opts_or_empty_def
        checked_opt_def)
  have i: "ShareGroupInstanceManager_list_opts example_constants (Some (RawId ''g1'')) None
             None None = Inr [(''share_group_id'', PyStr ''g1'')]"
    by (simp add: ShareGroupInstanceManager_list_opts_def with_group_def opts_or_empty_def
        checked_opt_def)
  have m: "(''share_id'', PyStr ''g1'') \<in> set (sorted_truthy_items [(''share_id'', PyStr ''g1'')]) \<and>
     (''share_group_id'', PyStr ''g1'') \<in>
        set (sorted_truthy_items [(''share_group_id'', PyStr ''g1'')])"
    using group_filter_keys [where g = "RawId ''g1''" and c = example_constants
        and search_opts = None and sk = None and sd = None
        and opts = "[(''share_id'', PyStr ''g1'')]"
        and opts' = "[(''share_group_id'', PyStr ''g1'')]"] r i
    by simp
  have q: "build_query_string [(''share_id'', PyStr ''g1'')] = ''?share_id=g1''"
     "build_query_string [(''share_group_id'', PyStr ''g1'')] = ''?share_group_id=g1''"
    by (simp_all add: build_query_string_def sorted_truthy_items_def urlencode_def
        quote_plus_def quote_char_def is_word_char_def Let_def)
  show ?thesis
    using m
    by (simp add: ShareGroupReplicaManager_list_def ShareGroupInstanceManager_list_def r i q
        list_request_def manager_list_def returned_def Let_def)
qed

end
